theory Spec2Isabelle
  imports Complex_Main "HOL-Library.Word" "HOL-Library.AList"
begin

section \<open>Arrays\<close>

text \<open>
  A numpy array is a shape together with its row-major buffer. The pixel type of every
  mask in \<^verbatim>\<open>dataset_utils.py\<close> is \<^verbatim>\<open>np.uint8\<close>, an 8-bit word whose
  addition wraps around.
\<close>

type_synonym u8 = "8 word"

record 'a ndarray =
  shape :: "nat list"
  buf :: "'a list"

definition nrows :: "'a ndarray \<Rightarrow> nat" where
  "nrows a = shape a ! 0"

definition ncols :: "'a ndarray \<Rightarrow> nat" where
  "ncols a = shape a ! 1"

definition tab2 :: "nat \<Rightarrow> nat \<Rightarrow> (nat \<Rightarrow> nat \<Rightarrow> 'a) \<Rightarrow> 'a ndarray" where
  "tab2 h w f = \<lparr>shape = [h, w], buf = map (\<lambda>p. f (p div w) (p mod w)) [0..<h * w]\<rparr>"

definition get2 :: "'a ndarray \<Rightarrow> nat \<Rightarrow> nat \<Rightarrow> 'a" where
  "get2 a i j = buf a ! (i * ncols a + j)"

definition wf2 :: "'a ndarray \<Rightarrow> bool" where
  "wf2 a \<longleftrightarrow> length (shape a) = 2 \<and> length (buf a) = nrows a * ncols a"

definition binary :: "u8 ndarray \<Rightarrow> bool" where
  "binary a \<longleftrightarrow> list_all (\<lambda>v. v \<le> 1) (buf a)"

text \<open>\<^verbatim>\<open>np.zeros(shape, dtype=np.uint8)\<close> and \<^verbatim>\<open>np.zeros_like\<close> for 2-D arrays.\<close>

definition np_zeros :: "nat \<times> nat \<Rightarrow> u8 ndarray" where
  "np_zeros s = tab2 (fst s) (snd s) (\<lambda>i j. 0)"

definition zeros_like :: "u8 ndarray \<Rightarrow> u8 ndarray" where
  "zeros_like a = np_zeros (nrows a, ncols a)"

text \<open>\<^verbatim>\<open>np.clip(a, 0, 1)\<close>\<close>

definition np_clip01 :: "u8 ndarray \<Rightarrow> u8 ndarray" where
  "np_clip01 a = tab2 (nrows a) (ncols a) (\<lambda>i j. min (max (get2 a i j) 0) 1)"

datatype fmt_arg = ShapeArg "nat list" | IntArg int

text \<open>
  The exceptions of Python, numpy and OpenCV that the modelled code can raise. The two
  exceptions the source raises itself carry their format string and the arguments of
  \<^verbatim>\<open>str.format\<close>.
\<close>

datatype error =
    TypeError
  | ValueError
  | IndexError
  | AttributeError
  | CvError
  | RuntimeError string "fmt_arg list"
  | Exception string "fmt_arg list"

subsection \<open>Slices and broadcasting\<close>

text \<open>
  A bound of a Python slice over an axis of length \<open>n\<close>: a negative bound counts from
  the end, and every bound is clamped to \<open>0..n\<close>. \<open>py_slice\<close> gives the first index
  and the length of \<^verbatim>\<open>a[start:stop]\<close>.
\<close>

definition py_index :: "nat \<Rightarrow> int \<Rightarrow> nat" where
  "py_index n i = (if i < 0 then nat (max 0 (i + int n)) else min (nat i) n)"

definition py_slice :: "nat \<Rightarrow> int \<Rightarrow> int \<Rightarrow> nat \<times> nat" where
  "py_slice n start stop = (let a = py_index n start; b = py_index n stop in (a, b - a))"

text \<open>
  numpy broadcasts a source of shape \<open>(h, w)\<close> to a destination of shape \<open>(H, W)\<close>
  when each source axis has the destination's length or length 1; \<open>bget\<close> reads the
  broadcast source.
\<close>

definition broadcastable :: "'a ndarray \<Rightarrow> nat \<Rightarrow> nat \<Rightarrow> bool" where
  "broadcastable src H W \<longleftrightarrow>
     (nrows src = H \<or> nrows src = 1) \<and> (ncols src = W \<or> ncols src = 1)"

definition bget :: "'a ndarray \<Rightarrow> nat \<Rightarrow> nat \<Rightarrow> 'a" where
  "bget src i j = get2 src (if nrows src = 1 then 0 else i) (if ncols src = 1 then 0 else j)"

text \<open>\<^verbatim>\<open>dst += src\<close> on whole arrays.\<close>

definition np_iadd :: "u8 ndarray \<Rightarrow> u8 ndarray \<Rightarrow> error + u8 ndarray" where
  "np_iadd dst src =
     (if broadcastable src (nrows dst) (ncols dst)
      then Inr (tab2 (nrows dst) (ncols dst) (\<lambda>i j. get2 dst i j + bget src i j))
      else Inl ValueError)"

text \<open>\<^verbatim>\<open>a + b\<close>: the result has the broadcast shape of both operands.\<close>

definition bdim :: "nat \<Rightarrow> nat \<Rightarrow> nat option" where
  "bdim x y = (if x = y then Some x else if x = 1 then Some y else if y = 1 then Some x else None)"

definition np_add :: "u8 ndarray \<Rightarrow> u8 ndarray \<Rightarrow> error + u8 ndarray" where
  "np_add a b =
     (case (bdim (nrows a) (nrows b), bdim (ncols a) (ncols b)) of
        (Some h, Some w) \<Rightarrow> Inr (tab2 h w (\<lambda>i j. bget a i j + bget b i j))
      | _ \<Rightarrow> Inl ValueError)"

text \<open>
  \<^verbatim>\<open>dst[r : r + h, c : c + w] = src\<close> and \<^verbatim>\<open>dst[r : r + h, c : c + w] += src\<close>,
  where \<open>(h, w)\<close> is the shape of \<open>src\<close>. The slice is clamped to the destination; numpy
  raises \<^verbatim>\<open>ValueError\<close> when the source does not broadcast to the clamped slice.
\<close>

definition slice_update ::
  "(u8 \<Rightarrow> u8 \<Rightarrow> u8) \<Rightarrow> u8 ndarray \<Rightarrow> int \<Rightarrow> int \<Rightarrow> u8 ndarray \<Rightarrow> error + u8 ndarray" where
  "slice_update f dst r c src =
     (let (r0, sh) = py_slice (nrows dst) r (r + int (nrows src));
          (c0, sw) = py_slice (ncols dst) c (c + int (ncols src))
      in if broadcastable src sh sw
         then Inr (tab2 (nrows dst) (ncols dst)
                (\<lambda>i j. if r0 \<le> i \<and> i < r0 + sh \<and> c0 \<le> j \<and> j < c0 + sw
                       then f (get2 dst i j) (bget src (i - r0) (j - c0))
                       else get2 dst i j))
         else Inl ValueError)"

definition assign_slice :: "u8 ndarray \<Rightarrow> int \<Rightarrow> int \<Rightarrow> u8 ndarray \<Rightarrow> error + u8 ndarray" where
  "assign_slice = slice_update (\<lambda>old new. new)"

definition iadd_slice :: "u8 ndarray \<Rightarrow> int \<Rightarrow> int \<Rightarrow> u8 ndarray \<Rightarrow> error + u8 ndarray" where
  "iadd_slice = slice_update (\<lambda>old new. old + new)"

subsection \<open>OpenCV dilation\<close>

text \<open>
  \<^verbatim>\<open>cv2.dilate(src, kernel)\<close> is a function of OpenCV, not of this repository. It is
  modelled after its documentation: the result has the shape of \<open>src\<close>, and the pixel at
  \<open>(i, j)\<close> is the maximum of the source over the non-zero elements of the kernel,
  anchored at the kernel's centre \<open>(rows div 2, cols div 2)\<close>; positions outside the
  image do not take part. A kernel without any non-zero element counts as the single
  element at \<open>(0, 0)\<close>. An empty kernel (Python's \<^verbatim>\<open>None\<close>) stands for the 3 x 3
  rectangle.
\<close>

definition kernel_elements :: "u8 ndarray \<Rightarrow> (nat \<times> nat) list" where
  "kernel_elements k =
     (let es = [(ky, kx). ky \<leftarrow> [0..<nrows k], kx \<leftarrow> [0..<ncols k], get2 k ky kx \<noteq> 0]
      in if es = [] then [(0, 0)] else es)"

definition neighbourhood :: "u8 ndarray \<Rightarrow> nat \<Rightarrow> nat \<Rightarrow> nat \<Rightarrow> nat \<Rightarrow> (nat \<times> nat) list" where
  "neighbourhood k h w i j =
     [(nat y, nat x).
        (ky, kx) \<leftarrow> kernel_elements k,
        y \<leftarrow> [int i + int ky - int (nrows k div 2)],
        x \<leftarrow> [int j + int kx - int (ncols k div 2)],
        0 \<le> y, y < int h, 0 \<le> x, x < int w]"

definition dilate :: "u8 ndarray \<Rightarrow> u8 ndarray \<Rightarrow> u8 ndarray" where
  "dilate src k =
     tab2 (nrows src) (ncols src)
       (\<lambda>i j. foldr max (map (\<lambda>(y, x). get2 src y x)
                 (neighbourhood k (nrows src) (ncols src) i j)) 0)"

definition cv2_dilate :: "u8 ndarray \<Rightarrow> u8 ndarray option \<Rightarrow> u8 ndarray" where
  "cv2_dilate src ko =
     dilate src (case ko of
                   None \<Rightarrow> tab2 3 3 (\<lambda>i j. 1)
                 | Some k \<Rightarrow> if nrows k = 0 \<or> ncols k = 0 then tab2 3 3 (\<lambda>i j. 1) else k)"

section \<open>MasksComposer\<close>

text \<open>
  \<^verbatim>\<open>self._masks\<close> is a Python dict, which keeps its keys in insertion order: an
  association list, updated in place. A value of the dict is either an array or the dict
  \<^verbatim>\<open>{'mask': ..., 'borders': ...}\<close>. The \<^verbatim>\<open>dtype\<close> of the composer is its default,
  \<^verbatim>\<open>np.uint8\<close>.
\<close>

datatype entry = Plain "u8 ndarray" | WithBorders "u8 ndarray" "u8 ndarray"

record MasksComposer =
  masks :: "(int \<times> entry) list"
  mask_shape :: "nat \<times> nat"
  borders_as_class :: bool
  borders_between_classes :: "int list option"
  dilate_masks_kernel :: "u8 ndarray option"

definition MasksComposer_init :: "nat \<times> nat \<Rightarrow> MasksComposer" where
  "MasksComposer_init target_shape =
     \<lparr>masks = [], mask_shape = target_shape, borders_as_class = False,
      borders_between_classes = None, dilate_masks_kernel = None\<rparr>"

definition default_kernel :: "u8 ndarray" where
  "default_kernel = tab2 2 2 (\<lambda>i j. 1)"

definition add_borders_as_class ::
  "MasksComposer \<Rightarrow> int list option \<Rightarrow> u8 ndarray option \<Rightarrow> MasksComposer" where
  "add_borders_as_class c between_classes kern =
     c\<lparr>borders_as_class := True, borders_between_classes := between_classes,
       dilate_masks_kernel := kern\<rparr>"

text \<open>
  \<^verbatim>\<open>_calc_border_between_masks\<close>. \<^verbatim>\<open>cv2.dilate(None, ...)\<close> raises; the boolean index
  \<^verbatim>\<open>borders[add > 1]\<close> raises \<^verbatim>\<open>IndexError\<close> unless \<open>add\<close> has the shape of
  \<open>borders\<close>.
\<close>

definition calc_border_between_masks ::
  "u8 ndarray option \<Rightarrow> u8 ndarray \<Rightarrow> u8 ndarray option \<Rightarrow> error + u8 ndarray" where
  "calc_border_between_masks ko mask1 mask2 =
     (let borders = zeros_like mask1;
          mask1_intern = cv2_dilate mask1 ko
      in case mask2 of
           None \<Rightarrow> Inl CvError
         | Some m2 \<Rightarrow>
             (case np_add mask1_intern (cv2_dilate m2 ko) of
                Inl e \<Rightarrow> Inl e
              | Inr add \<Rightarrow>
                  if nrows add = nrows borders \<and> ncols add = ncols borders
                  then Inr (tab2 (nrows borders) (ncols borders)
                         (\<lambda>i j. if get2 add i j > 1 then 1 else get2 borders i j))
                  else Inl IndexError))"

fun entry_mask :: "entry \<Rightarrow> u8 ndarray" where
  "entry_mask (Plain a) = a"
| "entry_mask (WithBorders m b) = m"

fun entry_borders :: "entry \<Rightarrow> u8 ndarray option" where
  "entry_borders (Plain a) = None"
| "entry_borders (WithBorders m b) = Some b"

text \<open>The first statement of \<^verbatim>\<open>add_mask\<close>: the canvas of a new class is created.\<close>

definition ensure_class :: "MasksComposer \<Rightarrow> int \<Rightarrow> (int \<times> entry) list \<times> entry" where
  "ensure_class c cls =
     (case map_of (masks c) cls of
        Some e \<Rightarrow> (masks c, e)
      | None \<Rightarrow> (masks c @ [(cls, Plain (np_zeros (mask_shape c)))],
                 Plain (np_zeros (mask_shape c))))"

text \<open>
  Lines 67 to 75: the contribution \<^verbatim>\<open>target_mask\<close>. With an offset, the mask is
  written into a zero array of the shape of the class mask; \<^verbatim>\<open>mask.shape\<close> raises
  \<^verbatim>\<open>AttributeError\<close> on \<^verbatim>\<open>None\<close>. Without an offset it is the mask itself.
\<close>

definition place_target ::
  "u8 ndarray \<Rightarrow> u8 ndarray option \<Rightarrow> (int \<times> int) option \<Rightarrow> error + u8 ndarray option" where
  "place_target origin_mask msk offset =
     (case offset of
        Some (r, c0) \<Rightarrow>
          (case msk of
             None \<Rightarrow> Inl AttributeError
           | Some m \<Rightarrow> map_sum id Some (assign_slice (zeros_like origin_mask) r c0 m))
      | None \<Rightarrow> Inr msk)"

text \<open>
  The branch of \<^verbatim>\<open>add_mask\<close> for a class with borders (lines 66 to 84).
  \<^verbatim>\<open>prev_borders\<close> is read only when an offset is given and the class already has
  its dict.
\<close>

definition add_mask_borders ::
  "MasksComposer \<Rightarrow> (int \<times> entry) list \<Rightarrow> entry \<Rightarrow> u8 ndarray option \<Rightarrow> int \<Rightarrow>
     (int \<times> int) option \<Rightarrow> error + MasksComposer" where
  "add_mask_borders c ms cur msk cls offset =
     (let origin_mask = entry_mask cur;
          prev_borders = (case offset of Some off \<Rightarrow> entry_borders cur | None \<Rightarrow> None)
      in case place_target origin_mask msk offset of
           Inl e \<Rightarrow> Inl e
         | Inr target_mask \<Rightarrow>
             (case calc_border_between_masks (dilate_masks_kernel c) origin_mask target_mask of
                Inl e \<Rightarrow> Inl e
              | Inr borders \<Rightarrow>
                  (case (case prev_borders of None \<Rightarrow> Inr borders
                                            | Some p \<Rightarrow> np_iadd borders p) of
                     Inl e \<Rightarrow> Inl e
                   | Inr borders' \<Rightarrow>
                       (case target_mask of
                          None \<Rightarrow> Inl TypeError
                        | Some t \<Rightarrow>
                            (case np_iadd origin_mask t of
                               Inl e \<Rightarrow> Inl e
                             | Inr origin' \<Rightarrow>
                                 Inr (c\<lparr>masks := AList.update cls
                                        (WithBorders (np_clip01 origin') (np_clip01 borders'))
                                        ms\<rparr>))))))"

text \<open>The branch for a class without borders (lines 86 to 89).\<close>

definition add_mask_plain ::
  "MasksComposer \<Rightarrow> (int \<times> entry) list \<Rightarrow> entry \<Rightarrow> u8 ndarray option \<Rightarrow> int \<Rightarrow>
     (int \<times> int) option \<Rightarrow> error + MasksComposer" where
  "add_mask_plain c ms cur msk cls offset =
     (case offset of
        Some (r, c0) \<Rightarrow>
          (case msk of
             None \<Rightarrow> Inl AttributeError
           | Some m \<Rightarrow>
               (case cur of
                  WithBorders _ _ \<Rightarrow> Inl TypeError
                | Plain canvas \<Rightarrow>
                    (case iadd_slice canvas r c0 m of
                       Inl e \<Rightarrow> Inl e
                     | Inr canvas' \<Rightarrow> Inr (c\<lparr>masks := AList.update cls (Plain canvas') ms\<rparr>))))
      | None \<Rightarrow>
          (case msk of
             None \<Rightarrow> Inl TypeError
           | Some m \<Rightarrow>
               (case cur of
                  WithBorders _ _ \<Rightarrow> Inl TypeError
                | Plain canvas \<Rightarrow>
                    (case np_iadd canvas m of
                       Inl e \<Rightarrow> Inl e
                     | Inr canvas' \<Rightarrow> Inr (c\<lparr>masks := AList.update cls (Plain canvas') ms\<rparr>)))))"

text \<open>
  \<^verbatim>\<open>add_mask\<close>. With borders switched on and \<^verbatim>\<open>between_classes\<close> left at its
  default \<^verbatim>\<open>None\<close>, the test \<^verbatim>\<open>cls in None\<close> raises \<^verbatim>\<open>TypeError\<close>. An exception
  leaves \<^verbatim>\<open>add_mask\<close> through its caller, so the result is the error alone.
\<close>

definition add_mask ::
  "MasksComposer \<Rightarrow> u8 ndarray option \<Rightarrow> int \<Rightarrow> (int \<times> int) option \<Rightarrow> error + MasksComposer" where
  "add_mask c msk cls offset =
     (let (ms, cur) = ensure_class c cls
      in if borders_as_class c
         then (case borders_between_classes c of
                 None \<Rightarrow> Inl TypeError
               | Some bc \<Rightarrow>
                   if cls \<in> set bc then add_mask_borders c ms cur msk cls offset
                   else add_mask_plain c ms cur msk cls offset)
         else add_mask_plain c ms cur msk cls offset)"

text \<open>The test of line 65, where it does not raise: the class takes the branch with borders.\<close>

definition border_class :: "MasksComposer \<Rightarrow> int \<Rightarrow> bool" where
  "border_class c cls \<longleftrightarrow>
     borders_as_class c \<and>
     (case borders_between_classes c of None \<Rightarrow> False | Some bc \<Rightarrow> cls \<in> set bc)"

subsection \<open>compose\<close>

text \<open>
  \<^verbatim>\<open>np.stack(arrays, axis)\<close>: all arrays must have one shape; the new axis of length
  \<open>length arrays\<close> is inserted at \<open>axis\<close>.
\<close>

definition np_stack :: "'a ndarray list \<Rightarrow> nat \<Rightarrow> error + 'a ndarray" where
  "np_stack arrs axis =
     (case arrs of
        [] \<Rightarrow> Inl ValueError
      | a # rest \<Rightarrow>
          if list_ex (\<lambda>b. shape b \<noteq> shape a) rest then Inl ValueError
          else if axis > length (shape a) then Inl ValueError
          else let inner = prod_list (drop axis (shape a))
               in Inr \<lparr>shape = take axis (shape a) @ [length arrs] @ drop axis (shape a),
                       buf = concat (map (\<lambda>out. concat (map (\<lambda>b. take inner (drop (out * inner) (buf b))) arrs))
                                      [0..<prod_list (take axis (shape a))])\<rparr>)"

fun compose_step :: "u8 ndarray option \<Rightarrow> entry \<Rightarrow> error + u8 ndarray option" where
  "compose_step None (WithBorders m b) = map_sum id Some (np_stack [m, b] 2)"
| "compose_step None (Plain m) = Inr (Some m)"
| "compose_step (Some res) (WithBorders m b) = map_sum id Some (np_stack [res, m, b] 2)"
| "compose_step (Some res) (Plain m) = map_sum id Some (np_stack [res, m] 0)"

fun compose_loop :: "u8 ndarray option \<Rightarrow> (int \<times> entry) list \<Rightarrow> error + u8 ndarray option" where
  "compose_loop res [] = Inr res"
| "compose_loop res ((cls, msk) # rest) =
     (case compose_step res msk of
        Inl e \<Rightarrow> Inl e
      | Inr res' \<Rightarrow> compose_loop res' rest)"

definition compose :: "MasksComposer \<Rightarrow> error + u8 ndarray option" where
  "compose c = compose_loop None (masks c)"

section \<open>SuperviselyDataset: decoding annotations\<close>

text \<open>
  An object of the annotation JSON. \<^verbatim>\<open>obj['bitmap']\<close> is \<^verbatim>\<open>None\<close> or carries the
  payload and its origin \<open>[x, y]\<close>; the payload is kept as the alpha channel that
  \<^verbatim>\<open>base64\<close>, \<^verbatim>\<open>zlib\<close> and \<^verbatim>\<open>cv2.imdecode\<close> (external libraries) produce from it.
  Points are pairs \<open>(x, y)\<close>.
\<close>

record bitmap_data =
  alpha :: "u8 ndarray"
  origin :: "int \<times> int"

record annotation_object =
  bitmap :: "bitmap_data option"
  points_interior :: "(int \<times> int) list"
  points_exterior :: "(int \<times> int) list"

subsection \<open>OpenCV contour filling\<close>

text \<open>
  \<^verbatim>\<open>cv2.drawContours(img, [pts], -1, 1, cv2.FILLED)\<close> is a function of OpenCV, not of
  this repository. It is modelled after its documentation: on an image without rows or
  without columns it raises its error; otherwise it paints, with the colour, the outline
  of the closed contour and the area the contour bounds, inside the image it is given,
  and returns that image. The outline is taken as the points of the segments between
  consecutive vertices and the area is decided by the parity of the crossings of a
  horizontal ray, which is what OpenCV paints for a contour with axis-parallel edges;
  next to a slanted edge the line drawing of OpenCV may paint further pixels, and
  nothing below depends on the pixels of such a contour.
\<close>

definition on_segment :: "int \<times> int \<Rightarrow> int \<times> int \<Rightarrow> int \<times> int \<Rightarrow> bool" where
  "on_segment a b p \<longleftrightarrow>
     (fst b - fst a) * (snd p - snd a) = (snd b - snd a) * (fst p - fst a) \<and>
     min (fst a) (fst b) \<le> fst p \<and> fst p \<le> max (fst a) (fst b) \<and>
     min (snd a) (snd b) \<le> snd p \<and> snd p \<le> max (snd a) (snd b)"

definition crosses :: "int \<times> int \<Rightarrow> int \<times> int \<Rightarrow> int \<times> int \<Rightarrow> bool" where
  "crosses a b p \<longleftrightarrow>
     (snd a > snd p) \<noteq> (snd b > snd p) \<and>
     (if snd b > snd a
      then (fst p - fst a) * (snd b - snd a) < (snd p - snd a) * (fst b - fst a)
      else (fst p - fst a) * (snd b - snd a) > (snd p - snd a) * (fst b - fst a))"

definition contour_edges :: "(int \<times> int) list \<Rightarrow> ((int \<times> int) \<times> (int \<times> int)) list" where
  "contour_edges pts = zip pts (rotate1 pts)"

definition painted :: "(int \<times> int) list \<Rightarrow> int \<times> int \<Rightarrow> bool" where
  "painted pts p \<longleftrightarrow>
     list_ex (\<lambda>(a, b). on_segment a b p) (contour_edges pts) \<or>
     odd (length (filter (\<lambda>(a, b). crosses a b p) (contour_edges pts)))"

definition drawContours_filled ::
  "u8 ndarray \<Rightarrow> (int \<times> int) list \<Rightarrow> u8 \<Rightarrow> error + u8 ndarray" where
  "drawContours_filled img pts colour =
     (if nrows img = 0 \<or> ncols img = 0 then Inl CvError
      else Inr (tab2 (nrows img) (ncols img)
             (\<lambda>i j. if painted pts (int j, int i) then colour else get2 img i j)))"

subsection \<open>object_to_mask\<close>

fun list_min :: "int list \<Rightarrow> int" where
  "list_min [] = 0"
| "list_min (x # xs) = fold min xs x"

fun list_max :: "int list \<Rightarrow> int" where
  "list_max [] = 0"
| "list_max (x # xs) = fold max xs x"

text \<open>\<^verbatim>\<open>np.array([...], dtype=np.uint16)\<close> wraps an integer into 16 bits.\<close>

definition as_uint16 :: "int \<Rightarrow> int" where
  "as_uint16 x = x mod 65536"

text \<open>
  \<^verbatim>\<open>object_to_mask\<close> returns the pair \<open>(obj_mask, origin)\<close>, each of them possibly
  \<^verbatim>\<open>None\<close>. \<^verbatim>\<open>pts.min(axis=0)\<close> raises \<^verbatim>\<open>ValueError\<close> on an empty exterior, and
  \<^verbatim>\<open>cv2.drawContours\<close> raises on the empty image of a bounding box without height or
  without width.
\<close>

definition object_to_mask ::
  "annotation_object \<Rightarrow> error + (u8 ndarray option \<times> (int \<times> int) option)" where
  "object_to_mask obj =
     (case bitmap obj of
        Some b \<Rightarrow>
          Inr (Some (tab2 (nrows (alpha b)) (ncols (alpha b))
                       (\<lambda>i j. if get2 (alpha b) i j > 0 then 1 else get2 (alpha b) i j)),
               Some (as_uint16 (snd (origin b)), as_uint16 (fst (origin b))))
      | None \<Rightarrow>
          if length (points_interior obj) + length (points_exterior obj) > 0
          then (let pts = points_exterior obj in
                if pts = [] then Inl ValueError
                else let ox = list_min (map fst pts); oy = list_min (map snd pts);
                         sx = list_max (map fst pts) - ox; sy = list_max (map snd pts) - oy
                     in case drawContours_filled (np_zeros (nat sy, nat sx))
                               (map (\<lambda>(x, y). (x - ox, y - oy)) pts) 1 of
                          Inl e \<Rightarrow> Inl e
                        | Inr obj_mask \<Rightarrow> Inr (Some obj_mask, Some (oy, ox)))
          else Inr (None, None))"

subsection \<open>_process_target\<close>

record annotation =
  size_height :: nat
  size_width :: nat
  objects :: "annotation_object list"

record SuperviselyDataset =
  use_border_as_class :: bool
  border_thikness :: "nat option"

fun add_objects :: "MasksComposer \<Rightarrow> annotation_object list \<Rightarrow> error + MasksComposer" where
  "add_objects composer [] = Inr composer"
| "add_objects composer (obj # rest) =
     (case object_to_mask obj of
        Inl e \<Rightarrow> Inl e
      | Inr (msk, orig) \<Rightarrow>
          (case add_mask composer msk 0 orig of
             Inl e \<Rightarrow> Inl e
           | Inr composer' \<Rightarrow> add_objects composer' rest))"

definition process_target :: "SuperviselyDataset \<Rightarrow> annotation \<Rightarrow> error + u8 ndarray option" where
  "process_target ds tgt =
     (let composer = MasksComposer_init (size_height tgt, size_width tgt);
          composer' =
            (if use_border_as_class ds
             then (case border_thikness ds of
                     None \<Rightarrow> add_borders_as_class composer (Some [0]) (Some default_kernel)
                   | Some t \<Rightarrow> add_borders_as_class composer (Some [0]) (Some (tab2 t t (\<lambda>i j. 1))))
             else composer)
      in case add_objects composer' (objects tgt) of
           Inl e \<Rightarrow> Inl e
         | Inr c \<Rightarrow> compose c)"

section \<open>EmptyClassesAdd\<close>

text \<open>
  A sample of a dataset is \<^verbatim>\<open>{'data': ..., 'target': ...}\<close>. The target of a wrapped
  dataset may have any numeric dtype (\<^verbatim>\<open>PixartDataset\<close> divides by 255, which gives
  \<^verbatim>\<open>float64\<close>); its elements are kept by their exact value, a rational number.
\<close>

record ('d, 't) sample =
  data :: 'd
  target :: "'t ndarray"

record ('i, 'd) EmptyClassesAdd =
  dataset :: "'i \<Rightarrow> error + ('d, rat) sample"
  target_classes_num :: int
  exists_class_idx :: int

definition msg_config :: string where
  "msg_config = ''Target classes number ({}) can't be less or equal than exists class index ({})''"

definition msg_dims :: string where
  "msg_dims = ''Dataset produce target with channels number more than 3.Target shape from dataset: {}''"

definition msg_channels :: string where
  "msg_channels = ''Dataset produce target with shape, that's first dimension greater than target classes num.Target shape from dataset: {}, target classes num: {}''"

definition EmptyClassesAdd_init ::
  "('i \<Rightarrow> error + ('d, rat) sample) \<Rightarrow> int \<Rightarrow> int \<Rightarrow> error + ('i, 'd) EmptyClassesAdd" where
  "EmptyClassesAdd_init ds target_classes_num' exists_class_idx' =
     (if target_classes_num' \<le> exists_class_idx'
      then Inl (Exception msg_config [IntArg target_classes_num', IntArg exists_class_idx'])
      else Inr \<lparr>dataset = ds, target_classes_num = target_classes_num',
                exists_class_idx = exists_class_idx'\<rparr>)"

text \<open>
  Storing a \<^verbatim>\<open>float64\<close> into a \<^verbatim>\<open>uint8\<close> array converts it as the C cast does:
  the fraction is cut off (towards zero), the integer goes through a 32-bit signed
  integer and its low byte is kept. A value whose integer part does not fit 32 bits
  becomes the integer \<open>-2^31\<close>, whose low byte is 0.
\<close>

definition trunc :: "rat \<Rightarrow> int" where
  "trunc v = (if v < 0 then \<lceil>v\<rceil> else \<lfloor>v\<rfloor>)"

definition to_uint8 :: "rat \<Rightarrow> u8" where
  "to_uint8 v =
     (if - 2147483648 \<le> trunc v \<and> trunc v < 2147483648 then word_of_int (trunc v) else 0)"

text \<open>
  The row-major buffer of \<^verbatim>\<open>np.zeros((H, W, n), dtype=np.uint8)\<close> after
  \<^verbatim>\<open>target[:, :, k] = values\<close>: each pixel has \<open>n\<close> channels, all zero but channel
  \<open>k\<close>, which holds the converted value.
\<close>

definition expanded :: "nat \<Rightarrow> nat \<Rightarrow> rat list \<Rightarrow> u8 list" where
  "expanded n k vs = concat (map (\<lambda>v. (replicate n 0)[k := to_uint8 v]) vs)"

text \<open>
  \<^verbatim>\<open>__getitem__\<close>. After the two checks, \<^verbatim>\<open>target_shape[1]\<close> raises \<^verbatim>\<open>IndexError\<close>
  on a target of fewer than two dimensions, \<^verbatim>\<open>np.zeros\<close> raises \<^verbatim>\<open>ValueError\<close> on a
  negative dimension, the index \<^verbatim>\<open>exists_class_idx\<close> (counted from the end when
  negative) raises \<^verbatim>\<open>IndexError\<close> out of range, and the assignment of a 3-D target of
  shape \<open>(H, W, C)\<close> to the \<open>(H, W)\<close> channel raises \<^verbatim>\<open>ValueError\<close> unless the shape is
  \<open>(1, 1, 1)\<close>. The result is the row-major buffer of shape \<open>(H, W, n)\<close>.
\<close>

definition EmptyClassesAdd_getitem ::
  "('i, 'd) EmptyClassesAdd \<Rightarrow> 'i \<Rightarrow> error + ('d, u8) sample" where
  "EmptyClassesAdd_getitem e item =
     (case dataset e item of
        Inl err \<Rightarrow> Inl err
      | Inr cur_res \<Rightarrow>
          (let target_shape = shape (target cur_res) in
           if length target_shape > 3
           then Inl (RuntimeError msg_dims [ShapeArg target_shape])
           else if length target_shape = 3 \<and> int (target_shape ! 2) > target_classes_num e
           then Inl (RuntimeError msg_channels [ShapeArg target_shape, IntArg (target_classes_num e)])
           else if length target_shape < 2 then Inl IndexError
           else if target_classes_num e < 0 then Inl ValueError
           else (let n = nat (target_classes_num e);
                     k = (if exists_class_idx e < 0
                          then exists_class_idx e + target_classes_num e
                          else exists_class_idx e)
                 in if k < 0 \<or> k \<ge> target_classes_num e then Inl IndexError
                    else if length target_shape = 2 \<or> target_shape = [1, 1, 1]
                    then Inr \<lparr>data = data cur_res,
                              target = \<lparr>shape = [target_shape ! 0, target_shape ! 1, n],
                                        buf = expanded n (nat k) (buf (target cur_res))\<rparr>\<rparr>
                    else Inl ValueError)))"

text \<open>Reading the channel \<open>c\<close> at \<open>(i, j)\<close> of an array of shape \<open>(H, W, n)\<close>.\<close>

definition get3 :: "'a ndarray \<Rightarrow> nat \<Rightarrow> nat \<Rightarrow> nat \<Rightarrow> 'a" where
  "get3 a i j c = buf a ! ((i * (shape a ! 1) + j) * (shape a ! 2) + c)"

section \<open>PixartDataset\<close>

text \<open>
  The target of \<^verbatim>\<open>PixartDataset.__getitem__\<close> is the mask image, as \<^verbatim>\<open>cv2.imread\<close>
  returns it, divided by 255.
\<close>

definition pixart_target :: "u8 ndarray \<Rightarrow> rat ndarray" where
  "pixart_target img = \<lparr>shape = shape img, buf = map (\<lambda>p. of_nat (unat p) / 255) (buf img)\<rparr>"

section \<open>A scenario of three calls\<close>

text \<open>
  Class 0 with borders, a 1 x 1 kernel and a canvas of shape \<open>(1, 3)\<close>: two masks that
  overlap at column 1 are added without an offset, then a third mask with the given offset.
\<close>

definition three_adds :: "(int \<times> int) option \<Rightarrow> error + MasksComposer" where
  "three_adds off =
     (case add_mask (add_borders_as_class (MasksComposer_init (1, 3)) (Some [0])
                       (Some \<lparr>shape = [1, 1], buf = [1]\<rparr>))
             (Some \<lparr>shape = [1, 3], buf = [1, 1, 0]\<rparr>) 0 None of
        Inl e \<Rightarrow> Inl e
      | Inr c \<Rightarrow>
          (case add_mask c (Some \<lparr>shape = [1, 3], buf = [0, 1, 0]\<rparr>) 0 None of
             Inl e \<Rightarrow> Inl e
           | Inr c' \<Rightarrow> add_mask c' (Some \<lparr>shape = [1, 3], buf = [0, 0, 1]\<rparr>) 0 off))"

section \<open>Facts about arrays\<close>

lemma index_lt: "i < h \<Longrightarrow> j < w \<Longrightarrow> i * w + j < h * (w::nat)"
proof -
  assume a: "i < h" "j < w"
  then have "i * w + j < i * w + w" by simp
  also have "\<dots> = (Suc i) * w" by simp
  also have "\<dots> \<le> h * w" using a(1) by (intro mult_le_mono1) simp
  finally show ?thesis .
qed

lemma nrows_tab2 [simp]: "nrows (tab2 h w f) = h"
  by (simp add: nrows_def tab2_def)

lemma ncols_tab2 [simp]: "ncols (tab2 h w f) = w"
  by (simp add: ncols_def tab2_def)

lemma shape_tab2 [simp]: "shape (tab2 h w f) = [h, w]"
  by (simp add: tab2_def)

lemma wf2_tab2 [simp]: "wf2 (tab2 h w f)"
  by (simp add: wf2_def tab2_def nrows_def ncols_def)

lemma get2_tab2 [simp]: "i < h \<Longrightarrow> j < w \<Longrightarrow> get2 (tab2 h w f) i j = f i j"
proof -
  assume a: "i < h" "j < w"
  then have "i * w + j < h * w" by (rule index_lt)
  then show ?thesis using a(2) by (simp add: get2_def ncols_def tab2_def)
qed

lemma nrows_np_zeros [simp]: "nrows (np_zeros (h, w)) = h"
  by (simp add: np_zeros_def)

lemma ncols_np_zeros [simp]: "ncols (np_zeros (h, w)) = w"
  by (simp add: np_zeros_def)

lemma wf2_np_zeros [simp]: "wf2 (np_zeros s)"
  by (simp add: np_zeros_def)

lemma get2_np_zeros [simp]: "i < h \<Longrightarrow> j < w \<Longrightarrow> get2 (np_zeros (h, w)) i j = 0"
  by (simp add: np_zeros_def)

lemma tab2_cong:
  assumes "\<And>i j. i < h \<Longrightarrow> j < w \<Longrightarrow> f i j = g i j"
  shows "tab2 h w f = tab2 h w g"
proof -
  have "f (p div w) (p mod w) = g (p div w) (p mod w)" if "p < h * w" for p
  proof -
    have w: "0 < w" using that by (cases w) simp_all
    have "p div w < h" using that by (simp add: less_mult_imp_div_less)
    moreover have "p mod w < w" using w by simp
    ultimately show ?thesis by (rule assms)
  qed
  then show ?thesis by (simp add: tab2_def)
qed

lemma tab2_get2:
  assumes "wf2 a"
  shows "tab2 (nrows a) (ncols a) (get2 a) = a"
proof -
  have sh: "shape a = [nrows a, ncols a]"
    using assms by (cases "shape a"; cases "tl (shape a)") (auto simp add: wf2_def nrows_def ncols_def)
  have len: "length (buf a) = nrows a * ncols a" using assms by (simp add: wf2_def)
  have "map (\<lambda>p. get2 a (p div ncols a) (p mod ncols a)) [0..<nrows a * ncols a] = buf a"
    by (rule nth_equalityI) (simp_all add: len get2_def)
  then show ?thesis using sh by (simp add: tab2_def)
qed

lemma binary_tab2:
  assumes "\<And>i j. i < h \<Longrightarrow> j < w \<Longrightarrow> f i j \<le> 1"
  shows "binary (tab2 h w f)"
proof -
  have "f (p div w) (p mod w) \<le> 1" if "p < h * w" for p
  proof -
    have w: "0 < w" using that by (cases w) simp_all
    have "p div w < h" using that by (simp add: less_mult_imp_div_less)
    moreover have "p mod w < w" using w by simp
    ultimately show ?thesis by (rule assms)
  qed
  then show ?thesis by (simp add: binary_def tab2_def list_all_iff)
qed

lemma binary_get2:
  assumes "binary a" "wf2 a" "i < nrows a" "j < ncols a"
  shows "get2 a i j \<le> 1"
proof -
  have "i * ncols a + j < length (buf a)"
    using assms(2-4) by (simp add: wf2_def index_lt)
  then show ?thesis using assms(1) by (simp add: binary_def get2_def list_all_length)
qed

lemma u8_le_1: "(v::u8) \<le> 1 \<longleftrightarrow> v = 0 \<or> v = 1"
proof
  assume "v \<le> 1"
  then have "unat v \<le> 1" by (simp add: word_le_nat_alt)
  then have "unat v = 0 \<or> unat v = unat (1::u8)" by auto
  then show "v = 0 \<or> v = 1" by (simp only: unat_eq_zero word_unat_eq_iff [symmetric])
next
  assume "v = 0 \<or> v = 1"
  then show "v \<le> 1" by auto
qed

section \<open>Properties of the decoder\<close>

lemma list_min_Min: "xs \<noteq> [] \<Longrightarrow> list_min xs = Min (set xs)"
  by (cases xs) (simp_all add: Min.set_eq_fold [symmetric])

lemma list_max_Max: "xs \<noteq> [] \<Longrightarrow> list_max xs = Max (set xs)"
  by (cases xs) (simp_all add: Max.set_eq_fold [symmetric])

text \<open>
  C7, as the claim states it, fails: it speaks of every polygon with exterior points,
  and on a polygon whose exterior points lie on one horizontal line the bounding box has
  no height, the image handed to \<^verbatim>\<open>cv2.drawContours\<close> is empty and the decoder raises.
\<close>

theorem object_to_mask_polygon_counterexample:
  "object_to_mask \<lparr>bitmap = None, points_interior = [], points_exterior = [(0, 0), (3, 0)]\<rparr> =
     Inl CvError"
  by code_simp

text \<open>
  C7, amended. A polygon object whose exterior points span a bounding box of positive
  height and width decodes to a binary mask whose shape is the extent of that bounding
  box, rows from the \<open>y\<close> range and columns from the \<open>x\<close> range, and to the origin
  \<open>(min y, min x)\<close>, the minimum corner in the order \<open>(row, col)\<close>. The square
  \<open>[(0,0), (0,10), (10,10), (10,0)]\<close> decodes to the 10 x 10 mask of ones with the
  origin \<open>(0, 0)\<close>.
\<close>

theorem object_to_mask_polygon:
  "(bitmap obj = None \<and> points_exterior obj \<noteq> [] \<and>
    Min (snd ` set (points_exterior obj)) < Max (snd ` set (points_exterior obj)) \<and>
    Min (fst ` set (points_exterior obj)) < Max (fst ` set (points_exterior obj)) \<longrightarrow>
      (\<exists>m. object_to_mask obj =
              Inr (Some m, Some (Min (snd ` set (points_exterior obj)),
                                 Min (fst ` set (points_exterior obj)))) \<and>
            shape m = [nat (Max (snd ` set (points_exterior obj)) - Min (snd ` set (points_exterior obj))),
                       nat (Max (fst ` set (points_exterior obj)) - Min (fst ` set (points_exterior obj)))] \<and>
            binary m)) \<and>
   object_to_mask \<lparr>bitmap = None, points_interior = [],
                   points_exterior = [(0, 0), (0, 10), (10, 10), (10, 0)]\<rparr> =
     Inr (Some (tab2 10 10 (\<lambda>i j. 1)), Some (0, 0))"
proof (intro conjI impI)
  let ?pts = "points_exterior obj"
  assume a: "bitmap obj = None \<and> ?pts \<noteq> [] \<and>
    Min (snd ` set ?pts) < Max (snd ` set ?pts) \<and> Min (fst ` set ?pts) < Max (fst ` set ?pts)"
  have mn: "list_min (map fst ?pts) = Min (fst ` set ?pts)" "list_min (map snd ?pts) = Min (snd ` set ?pts)"
    and mx: "list_max (map fst ?pts) = Max (fst ` set ?pts)" "list_max (map snd ?pts) = Max (snd ` set ?pts)"
    using a by (simp_all add: list_min_Min list_max_Max)
  let ?h = "nat (Max (snd ` set ?pts) - Min (snd ` set ?pts))"
  let ?w = "nat (Max (fst ` set ?pts) - Min (fst ` set ?pts))"
  let ?m = "\<lambda>ps. tab2 ?h ?w (\<lambda>i j. if painted ps (int j, int i) then 1
                                     else get2 (np_zeros (?h, ?w)) i j)"
  have pos: "0 < ?h" "0 < ?w" using a by simp_all
  have d: "drawContours_filled (np_zeros (?h, ?w)) ps 1 = Inr (?m ps)" for ps
    using pos by (simp add: drawContours_filled_def)
  have b: "binary (?m ps)" for ps
    by (rule binary_tab2) simp
  have sh: "shape (?m ps) = [?h, ?w]" for ps
    by simp
  have "object_to_mask obj =
          Inr (Some (?m (map (\<lambda>(x, y). (x - Min (fst ` set ?pts), y - Min (snd ` set ?pts))) ?pts)),
               Some (Min (snd ` set ?pts), Min (fst ` set ?pts)))"
    using a by (simp add: object_to_mask_def Let_def mn mx d)
  then show "\<exists>m. object_to_mask obj =
              Inr (Some m, Some (Min (snd ` set ?pts), Min (fst ` set ?pts))) \<and>
            shape m = [?h, ?w] \<and> binary m"
    using b sh by blast
next
  show "object_to_mask \<lparr>bitmap = None, points_interior = [],
                   points_exterior = [(0, 0), (0, 10), (10, 10), (10, 0)]\<rparr> =
     Inr (Some (tab2 10 10 (\<lambda>i j. 1)), Some (0, 0))"
    by code_simp
qed

theorem object_to_mask_polygon_witness:
  "\<exists>m. object_to_mask \<lparr>bitmap = None, points_interior = [],
                       points_exterior = [(2, 3), (6, 3), (6, 8)]\<rparr> =
          Inr (Some m, Some (3, 2)) \<and> shape m = [5, 4] \<and> binary m"
  using object_to_mask_polygon
    [of "\<lparr>bitmap = None, points_interior = [], points_exterior = [(2, 3), (6, 3), (6, 8)]\<rparr>"]
  by simp

section \<open>Properties of MasksComposer\<close>

subsection \<open>compose\<close>

text \<open>
  C4, on the code: two classes without border tracking, on a canvas of shape \<open>(1, 3)\<close>.
  \<^verbatim>\<open>compose\<close> stacks them with \<^verbatim>\<open>axis=0\<close> (line 103): the result has shape
  \<open>(2, 1, 3)\<close>, the new axis leading, where the claim has the trailing axis, shape
  \<open>(1, 3, 2)\<close>, as the branch of line 96 builds with \<^verbatim>\<open>axis=2\<close>.
\<close>

theorem compose_two_plain_classes_leading_axis:
  "(case add_mask (MasksComposer_init (1, 3)) (Some \<lparr>shape = [1, 3], buf = [1, 1, 0]\<rparr>) 0 None of
      Inl e \<Rightarrow> Inl e
    | Inr c \<Rightarrow>
        (case add_mask c (Some \<lparr>shape = [1, 3], buf = [0, 1, 0]\<rparr>) 1 None of
           Inl e \<Rightarrow> Inl e
         | Inr c' \<Rightarrow> compose c')) =
   Inr (Some \<lparr>shape = [2, 1, 3], buf = [1, 1, 0, 0, 1, 0]\<rparr>)"
  by code_simp

subsection \<open>Objects that decode to nothing\<close>

text \<open>
  C5, on the code: an object with no bitmap and no points decodes to \<open>(None, None)\<close>,
  and \<^verbatim>\<open>_process_target\<close> passes the \<^verbatim>\<open>None\<close> mask on to \<^verbatim>\<open>add_mask\<close>, which
  raises: \<^verbatim>\<open>TypeError\<close> at line 89 without borders, the error of \<^verbatim>\<open>cv2.dilate\<close> at
  line 55 with borders.
\<close>

theorem process_target_empty_object_raises:
  "object_to_mask \<lparr>bitmap = None, points_interior = [], points_exterior = []\<rparr> = Inr (None, None) \<and>
   process_target \<lparr>use_border_as_class = False, border_thikness = None\<rparr>
     \<lparr>size_height = 2, size_width = 2,
      objects = [\<lparr>bitmap = None, points_interior = [], points_exterior = []\<rparr>]\<rparr> = Inl TypeError \<and>
   process_target \<lparr>use_border_as_class = True, border_thikness = None\<rparr>
     \<lparr>size_height = 2, size_width = 2,
      objects = [\<lparr>bitmap = None, points_interior = [], points_exterior = []\<rparr>]\<rparr> = Inl CvError"
  by code_simp

subsection \<open>Borders over repeated calls\<close>

text \<open>
  C3, on the code: class 0 with borders, a 1 x 1 kernel, a canvas of shape \<open>(1, 3)\<close>.
  The first two masks overlap at column 1, which becomes a border pixel. A third mask
  added without an offset resets the borders, because \<^verbatim>\<open>prev_borders\<close> is read only
  under \<^verbatim>\<open>if offset is not None\<close> (lines 67 to 70); the same mask added with the offset
  \<open>(0, 0)\<close> keeps the border pixel.
\<close>

theorem add_mask_without_offset_drops_borders:
  "map_sum id masks (three_adds None) =
     Inr [(0, WithBorders \<lparr>shape = [1, 3], buf = [1, 1, 1]\<rparr> \<lparr>shape = [1, 3], buf = [0, 0, 0]\<rparr>)] \<and>
   map_sum id masks (three_adds (Some (0, 0))) =
     Inr [(0, WithBorders \<lparr>shape = [1, 3], buf = [1, 1, 1]\<rparr> \<lparr>shape = [1, 3], buf = [0, 1, 0]\<rparr>)]"
  by code_simp

subsection \<open>Broadcasting and dilation\<close>

lemma bget_same:
  assumes "nrows a = H" "ncols a = W" "i < H" "j < W"
  shows "bget a i j = get2 a i j"
  using assms by (auto simp add: bget_def)

lemma np_iadd_same:
  assumes "nrows src = nrows dst" "ncols src = ncols dst"
  shows "np_iadd dst src =
           Inr (tab2 (nrows dst) (ncols dst) (\<lambda>i j. get2 dst i j + get2 src i j))"
proof -
  have "tab2 (nrows dst) (ncols dst) (\<lambda>i j. get2 dst i j + bget src i j) =
        tab2 (nrows dst) (ncols dst) (\<lambda>i j. get2 dst i j + get2 src i j)"
    by (rule tab2_cong) (simp add: bget_same [OF assms])
  then show ?thesis using assms by (simp add: np_iadd_def broadcastable_def)
qed

lemma foldr_max_cases: "foldr max xs (0::u8) = 0 \<or> foldr max xs 0 \<in> set xs"
  by (induction xs) (auto simp add: max_def)

lemma neighbourhood_in_range:
  "(y, x) \<in> set (neighbourhood k h w i j) \<Longrightarrow> y < h \<and> x < w"
  by (auto simp add: neighbourhood_def nat_less_iff split: if_splits)

lemma dilate_pixel:
  assumes "i < nrows src" "j < ncols src"
  shows "get2 (dilate src k) i j = 0 \<or>
         (\<exists>y < nrows src. \<exists>x < ncols src. get2 (dilate src k) i j = get2 src y x)"
proof -
  let ?vs = "map (\<lambda>(y, x). get2 src y x) (neighbourhood k (nrows src) (ncols src) i j)"
  have d: "get2 (dilate src k) i j = foldr max ?vs 0"
    using assms by (simp add: dilate_def)
  from foldr_max_cases [of ?vs] show ?thesis
  proof
    assume "foldr max ?vs 0 = 0"
    then show ?thesis by (simp add: d)
  next
    assume "foldr max ?vs 0 \<in> set ?vs"
    then obtain y x where mem: "(y, x) \<in> set (neighbourhood k (nrows src) (ncols src) i j)"
      and v: "foldr max ?vs 0 = get2 src y x" by auto
    from neighbourhood_in_range [OF mem] v show ?thesis by (auto simp add: d)
  qed
qed

lemma nrows_cv2_dilate [simp]: "nrows (cv2_dilate src ko) = nrows src"
  by (simp add: cv2_dilate_def dilate_def)

lemma ncols_cv2_dilate [simp]: "ncols (cv2_dilate src ko) = ncols src"
  by (simp add: cv2_dilate_def dilate_def)

lemma dilate_binary:
  assumes "binary src" "wf2 src" "i < nrows src" "j < ncols src"
  shows "get2 (dilate src k) i j \<le> 1"
proof -
  from dilate_pixel [OF assms(3,4), of k] show ?thesis
  proof
    assume "get2 (dilate src k) i j = 0"
    then show ?thesis by simp
  next
    assume "\<exists>y < nrows src. \<exists>x < ncols src. get2 (dilate src k) i j = get2 src y x"
    then obtain y x where "y < nrows src" "x < ncols src"
      and e: "get2 (dilate src k) i j = get2 src y x" by blast
    then have "get2 src y x \<le> 1" using assms(1,2) by (simp add: binary_get2)
    then show ?thesis by (simp only: e)
  qed
qed

lemma cv2_dilate_binary:
  assumes "binary src" "wf2 src" "i < nrows src" "j < ncols src"
  shows "get2 (cv2_dilate src ko) i j \<le> 1"
  unfolding cv2_dilate_def using assms by (rule dilate_binary)

lemma dilate_zeros:
  assumes "i < h" "j < w"
  shows "get2 (dilate (np_zeros (h, w)) k) i j = 0"
proof -
  have i: "i < nrows (np_zeros (h, w))" and j: "j < ncols (np_zeros (h, w))"
    using assms by (simp_all add: np_zeros_def)
  from dilate_pixel [OF i j, of k] show ?thesis
  proof
    assume "get2 (dilate (np_zeros (h, w)) k) i j = 0"
    then show ?thesis .
  next
    assume "\<exists>y < nrows (np_zeros (h, w)). \<exists>x < ncols (np_zeros (h, w)).
              get2 (dilate (np_zeros (h, w)) k) i j = get2 (np_zeros (h, w)) y x"
    then obtain y x where "y < h" "x < w"
      and e: "get2 (dilate (np_zeros (h, w)) k) i j = get2 (np_zeros (h, w)) y x"
      by (auto simp add: np_zeros_def)
    then have "get2 (np_zeros (h, w)) y x = 0" by (simp add: np_zeros_def)
    then show ?thesis by (simp only: e)
  qed
qed

lemma cv2_dilate_zeros:
  assumes "i < h" "j < w"
  shows "get2 (cv2_dilate (np_zeros (h, w)) ko) i j = 0"
  unfolding cv2_dilate_def using assms by (rule dilate_zeros)

lemma calc_border_same_shape:
  assumes "nrows m1 = H" "ncols m1 = W" "nrows m2 = H" "ncols m2 = W"
  shows "calc_border_between_masks ko m1 (Some m2) =
           Inr (tab2 H W (\<lambda>i j. if get2 (cv2_dilate m1 ko) i j + get2 (cv2_dilate m2 ko) i j > 1
                                then 1 else 0))"
proof -
  let ?d1 = "cv2_dilate m1 ko" and ?d2 = "cv2_dilate m2 ko"
  let ?add = "tab2 H W (\<lambda>i j. bget ?d1 i j + bget ?d2 i j)"
  have add: "np_add ?d1 ?d2 = Inr ?add"
    using assms by (simp add: np_add_def bdim_def)
  have z: "zeros_like m1 = np_zeros (H, W)" using assms by (simp add: zeros_like_def)
  have c: "calc_border_between_masks ko m1 (Some m2) =
        Inr (tab2 H W (\<lambda>i j. if get2 ?add i j > 1 then 1 else get2 (np_zeros (H, W)) i j))"
    using assms by (simp add: calc_border_between_masks_def add z)
  have e: "tab2 H W (\<lambda>i j. if get2 ?add i j > 1 then 1 else get2 (np_zeros (H, W)) i j) =
        tab2 H W (\<lambda>i j. if get2 ?d1 i j + get2 ?d2 i j > 1 then 1 else 0)"
    by (rule tab2_cong) (simp add: bget_same assms)
  show ?thesis by (simp only: c e)
qed

subsection \<open>Slices\<close>





lemma max_zero_u8 [simp]: "max (v::u8) 0 = v"
  by (simp add: max_def)

lemma np_clip01_tab2: "np_clip01 (tab2 h w f) = tab2 h w (\<lambda>i j. min (f i j) 1)"
  unfolding np_clip01_def by (simp, rule tab2_cong) simp

subsection \<open>One call of add_mask\<close>

lemma add_mask_border_class:
  assumes "border_class c cls" "ensure_class c cls = (ms, cur)"
  shows "add_mask c msk cls off = add_mask_borders c ms cur msk cls off"
  using assms by (auto simp add: add_mask_def border_class_def split: option.splits)


lemma add_mask_borders_step:
  assumes pt: "place_target (entry_mask cur) (Some m) off = Inr (Some t)"
    and o: "nrows (entry_mask cur) = H" "ncols (entry_mask cur) = W"
    and t: "nrows t = H" "ncols t = W"
    and pv: "prev = (case off of Some x \<Rightarrow> entry_borders cur | None \<Rightarrow> None)"
    and ps: "\<And>p. prev = Some p \<Longrightarrow> nrows p = H \<and> ncols p = W"
  shows "add_mask_borders c ms cur (Some m) cls off =
           Inr (c\<lparr>masks := AList.update cls
                  (WithBorders
                     (tab2 H W (\<lambda>i j. min (get2 (entry_mask cur) i j + get2 t i j) 1))
                     (tab2 H W (\<lambda>i j. min ((if 1 < get2 (cv2_dilate (entry_mask cur) (dilate_masks_kernel c)) i j +
                                                    get2 (cv2_dilate t (dilate_masks_kernel c)) i j
                                              then 1 else 0) +
                                             (case prev of None \<Rightarrow> 0 | Some p \<Rightarrow> get2 p i j)) 1)))
                  ms\<rparr>)"
proof -
  let ?k = "dilate_masks_kernel c" and ?o = "entry_mask cur"
  let ?b = "tab2 H W (\<lambda>i j. if 1 < get2 (cv2_dilate ?o ?k) i j + get2 (cv2_dilate t ?k) i j
                              then 1 else (0::u8))"
  let ?b' = "tab2 H W (\<lambda>i j. (if 1 < get2 (cv2_dilate ?o ?k) i j + get2 (cv2_dilate t ?k) i j
                                then 1 else (0::u8)) +
                               (case prev of None \<Rightarrow> 0 | Some p \<Rightarrow> get2 p i j))"
  have cb: "calc_border_between_masks ?k ?o (Some t) = Inr ?b"
    using o t by (rule calc_border_same_shape)
  have pb: "(case prev of None \<Rightarrow> Inr ?b | Some p \<Rightarrow> np_iadd ?b p) = Inr ?b'"
  proof (cases prev)
    case None
    then show ?thesis by simp
  next
    case (Some p)
    then have "nrows p = nrows ?b" "ncols p = ncols ?b" using ps by simp_all
    then have "np_iadd ?b p = Inr (tab2 H W (\<lambda>i j. get2 ?b i j + get2 p i j))"
      using np_iadd_same [of p ?b] by simp
    also have "tab2 H W (\<lambda>i j. get2 ?b i j + get2 p i j) = ?b'"
      by (rule tab2_cong) (simp add: Some)
    finally show ?thesis by (simp add: Some)
  qed
  have oa: "np_iadd ?o t = Inr (tab2 H W (\<lambda>i j. get2 ?o i j + get2 t i j))"
    using np_iadd_same [of t ?o] o t by simp
  show ?thesis
    unfolding add_mask_borders_def Let_def
    by (simp add: pt cb pb [unfolded pv] oa np_clip01_tab2 pv)
qed

subsection \<open>The contribution of a call\<close>

lemma place_target_cong:
  assumes "nrows a = nrows b" "ncols a = ncols b"
  shows "place_target a msk off = place_target b msk off"
proof -
  have "zeros_like a = zeros_like b" using assms by (simp add: zeros_like_def)
  then show ?thesis by (simp only: place_target_def)
qed

lemma slice_update_wf2:
  assumes "slice_update f dst r c src = Inr t"
  shows "wf2 t \<and> nrows t = nrows dst \<and> ncols t = ncols dst"
  using assms by (auto simp add: slice_update_def Let_def split: prod.splits if_splits)

lemma assign_slice_binary:
  assumes "assign_slice (np_zeros (h, w)) r c src = Inr t" "binary src" "wf2 src"
  shows "binary t"
proof -
  obtain r0 sh where r: "py_slice h r (r + int (nrows src)) = (r0, sh)"
    by (cases "py_slice h r (r + int (nrows src))")
  obtain c0 sw where c: "py_slice w c (c + int (ncols src)) = (c0, sw)"
    by (cases "py_slice w c (c + int (ncols src))")
  have b: "broadcastable src sh sw"
    using assms(1) by (simp add: assign_slice_def slice_update_def r c split: if_splits)
  have t: "t = tab2 h w (\<lambda>i j. if r0 \<le> i \<and> i < r0 + sh \<and> c0 \<le> j \<and> j < c0 + sw
                               then bget src (i - r0) (j - c0)
                               else get2 (np_zeros (h, w)) i j)"
    using assms(1) b by (simp add: assign_slice_def slice_update_def r c)
  have v: "bget src (i - r0) (j - c0) \<le> 1"
    if "r0 \<le> i" "i < r0 + sh" "c0 \<le> j" "j < c0 + sw" for i j
  proof -
    have "(if nrows src = 1 then 0 else i - r0) < nrows src"
      using b that by (auto simp add: broadcastable_def)
    moreover have "(if ncols src = 1 then 0 else j - c0) < ncols src"
      using b that by (auto simp add: broadcastable_def)
    ultimately show ?thesis
      unfolding bget_def using assms(2,3) by (intro binary_get2)
  qed
  show ?thesis unfolding t by (rule binary_tab2) (simp add: v)
qed

lemma place_target_wf2_binary:
  assumes "place_target (np_zeros (h, w)) (Some m) off = Inr (Some t)" "wf2 m" "binary m"
  shows "wf2 t \<and> binary t"
proof (cases off)
  case None
  then show ?thesis using assms by (simp add: place_target_def)
next
  case (Some rc)
  obtain r c where rc: "rc = (r, c)" by (cases rc)
  have a: "assign_slice (np_zeros (h, w)) r c m = Inr t"
    using assms(1) by (auto simp add: place_target_def Some rc zeros_like_def map_sum_def split: sum.splits)
  have "wf2 t" using a slice_update_wf2 by (simp add: assign_slice_def)
  moreover have "binary t" using a assms(3,2) by (rule assign_slice_binary)
  ultimately show ?thesis by simp
qed

lemma u8_sum_gt_1:
  assumes "(a::u8) \<le> 1" "b \<le> 1"
  shows "1 < a + b \<longleftrightarrow> a \<noteq> 0 \<and> b \<noteq> 0"
  using assms by (auto simp add: u8_le_1)

lemma min_1_binary: "(v::u8) \<le> 1 \<Longrightarrow> min v 1 = v"
  by (simp add: min_def)

subsection \<open>Borders between two masks\<close>

lemma ensure_class_new:
  assumes "map_of (masks c) cls = None" "mask_shape c = s"
  shows "ensure_class c cls = (masks c @ [(cls, Plain (np_zeros s))], Plain (np_zeros s))"
  using assms by (simp add: ensure_class_def)

lemma ensure_class_old:
  assumes "map_of (masks c) cls = Some e"
  shows "ensure_class c cls = (masks c, e)"
  using assms by (simp add: ensure_class_def)

lemma map_of_update_same: "map_of (AList.update k v al) k = Some v"
  by (simp add: update_conv')

text \<open>
  C1. A class with borders that the composer does not hold yet, and two binary masks
  added to it in sequence, each with or without an offset; \<open>t1\<close> and \<open>t2\<close> are the two
  contributions on the canvas (line 73 or 75). After the first call the accumulated
  mask is \<open>t1\<close> and there is no border. After the second call the border mask is 1
  exactly at the pixels where the dilations of \<open>t1\<close> and of \<open>t2\<close> are both non-zero
  and 0 elsewhere; it is all zero when the two dilations have disjoint support.
\<close>

theorem add_mask_border_between_two_masks:
  assumes bc: "border_class c cls"
    and fresh: "map_of (masks c) cls = None"
    and shp: "mask_shape c = (H, W)"
    and m1: "wf2 m1" "binary m1" and m2: "wf2 m2" "binary m2"
    and p1: "place_target (np_zeros (H, W)) (Some m1) o1 = Inr (Some t1)"
    and s1: "nrows t1 = H" "ncols t1 = W"
    and p2: "place_target (np_zeros (H, W)) (Some m2) o2 = Inr (Some t2)"
    and s2: "nrows t2 = H" "ncols t2 = W"
  shows "\<exists>c1 c2 M B.
           add_mask c (Some m1) cls o1 = Inr c1 \<and>
           map_of (masks c1) cls = Some (WithBorders t1 (np_zeros (H, W))) \<and>
           add_mask c1 (Some m2) cls o2 = Inr c2 \<and>
           map_of (masks c2) cls = Some (WithBorders M B) \<and>
           B = tab2 H W (\<lambda>i j. if get2 (cv2_dilate t1 (dilate_masks_kernel c)) i j \<noteq> 0 \<and>
                                   get2 (cv2_dilate t2 (dilate_masks_kernel c)) i j \<noteq> 0
                                then 1 else 0) \<and>
           ((\<forall>i < H. \<forall>j < W. get2 (cv2_dilate t1 (dilate_masks_kernel c)) i j = 0 \<or>
                             get2 (cv2_dilate t2 (dilate_masks_kernel c)) i j = 0) \<longrightarrow>
              B = np_zeros (H, W))"
proof -
  let ?k = "dilate_masks_kernel c" and ?Z = "np_zeros (H, W)"
  let ?ms = "masks c @ [(cls, Plain ?Z)]"
  have t1: "wf2 t1" "binary t1" using place_target_wf2_binary [OF p1 m1] by simp_all
  have t2: "wf2 t2" "binary t2" using place_target_wf2_binary [OF p2 m2] by simp_all
  have d1: "get2 (cv2_dilate t1 ?k) i j \<le> 1" if "i < H" "j < W" for i j
    using t1 that s1 by (intro cv2_dilate_binary) simp_all
  have d2: "get2 (cv2_dilate t2 ?k) i j \<le> 1" if "i < H" "j < W" for i j
    using t2 that s2 by (intro cv2_dilate_binary) simp_all
  \<comment> \<open>the first call\<close>
  have e1: "ensure_class c cls = (?ms, Plain ?Z)"
    using fresh shp by (rule ensure_class_new)
  have pv1: "None = (case o1 of Some x \<Rightarrow> entry_borders (Plain ?Z) | None \<Rightarrow> None)"
    by (cases o1) simp_all
  have M1: "tab2 H W (\<lambda>i j. min (get2 (entry_mask (Plain ?Z)) i j + get2 t1 i j) 1) = t1"
  proof -
    have "tab2 H W (\<lambda>i j. min (get2 (entry_mask (Plain ?Z)) i j + get2 t1 i j) 1) =
          tab2 H W (get2 t1)"
      by (rule tab2_cong) (simp add: min_1_binary binary_get2 [OF t1(2,1)] s1)
    then show ?thesis using tab2_get2 [OF t1(1)] s1 by simp
  qed
  have B1: "tab2 H W (\<lambda>i j. min ((if 1 < get2 (cv2_dilate (entry_mask (Plain ?Z)) ?k) i j +
                                         get2 (cv2_dilate t1 ?k) i j then 1 else 0) +
                                 (case None of None \<Rightarrow> 0 | Some p \<Rightarrow> get2 p i j)) 1) = ?Z"
    unfolding np_zeros_def fst_conv snd_conv
  proof (rule tab2_cong)
    fix i j assume ij: "i < H" "j < W"
    have "\<not> 1 < get2 (cv2_dilate t1 ?k) i j" using d1 [OF ij] by simp
    then show "min ((if 1 < get2 (cv2_dilate (entry_mask (Plain (tab2 H W (\<lambda>i j. 0)))) ?k) i j +
                            get2 (cv2_dilate t1 ?k) i j then 1 else 0) +
                    (case None of None \<Rightarrow> 0 | Some p \<Rightarrow> get2 p i j)) 1 = (0::u8)"
      using cv2_dilate_zeros [OF ij, of ?k] by (simp add: np_zeros_def)
  qed
  let ?c1 = "c\<lparr>masks := AList.update cls (WithBorders t1 ?Z) ?ms\<rparr>"
  have step1: "add_mask_borders c ?ms (Plain ?Z) (Some m1) cls o1 = Inr ?c1"
    using add_mask_borders_step [of "Plain ?Z" m1 o1 t1 H W None c ?ms cls] p1 s1 pv1
    by (simp only: M1 B1) simp
  have a1: "add_mask c (Some m1) cls o1 = Inr ?c1"
    using add_mask_border_class [OF bc e1] step1 by simp
  have l1: "map_of (masks ?c1) cls = Some (WithBorders t1 ?Z)"
    by (simp add: map_of_update_same)
  \<comment> \<open>the second call\<close>
  have bc1: "border_class ?c1 cls" using bc by (simp add: border_class_def)
  have e2: "ensure_class ?c1 cls = (masks ?c1, WithBorders t1 ?Z)"
    using l1 by (rule ensure_class_old)
  have p2': "place_target (entry_mask (WithBorders t1 ?Z)) (Some m2) o2 = Inr (Some t2)"
    using place_target_cong [of t1 ?Z "Some m2" o2] p2 s1 by simp
  let ?prev = "case o2 of Some x \<Rightarrow> entry_borders (WithBorders t1 ?Z) | None \<Rightarrow> None"
  have ps: "nrows p = H \<and> ncols p = W" if "?prev = Some p" for p
    using that by (cases o2) auto
  have pz: "(case ?prev of None \<Rightarrow> 0 | Some p \<Rightarrow> get2 p i j) = 0" if "i < H" "j < W" for i j
    using that by (cases o2) simp_all
  let ?B = "tab2 H W (\<lambda>i j. if get2 (cv2_dilate t1 ?k) i j \<noteq> 0 \<and> get2 (cv2_dilate t2 ?k) i j \<noteq> 0
                              then 1 else (0::u8))"
  let ?M = "tab2 H W (\<lambda>i j. min (get2 (entry_mask (WithBorders t1 ?Z)) i j + get2 t2 i j) 1)"
  have B2: "tab2 H W (\<lambda>i j. min ((if 1 < get2 (cv2_dilate (entry_mask (WithBorders t1 ?Z)) (dilate_masks_kernel ?c1)) i j +
                                         get2 (cv2_dilate t2 (dilate_masks_kernel ?c1)) i j then 1 else 0) +
                                 (case ?prev of None \<Rightarrow> 0 | Some p \<Rightarrow> get2 p i j)) 1) = ?B"
  proof (rule tab2_cong)
    fix i j assume ij: "i < H" "j < W"
    show "min ((if 1 < get2 (cv2_dilate (entry_mask (WithBorders t1 ?Z)) (dilate_masks_kernel ?c1)) i j +
                       get2 (cv2_dilate t2 (dilate_masks_kernel ?c1)) i j then 1 else 0) +
               (case ?prev of None \<Rightarrow> 0 | Some p \<Rightarrow> get2 p i j)) 1 =
          (if get2 (cv2_dilate t1 ?k) i j \<noteq> 0 \<and> get2 (cv2_dilate t2 ?k) i j \<noteq> 0 then 1 else (0::u8))"
      using u8_sum_gt_1 [OF d1 [OF ij] d2 [OF ij]] by (simp add: pz [OF ij])
  qed
  let ?c2 = "?c1\<lparr>masks := AList.update cls (WithBorders ?M ?B) (masks ?c1)\<rparr>"
  have step2: "add_mask_borders ?c1 (masks ?c1) (WithBorders t1 ?Z) (Some m2) cls o2 = Inr ?c2"
    using add_mask_borders_step [of "WithBorders t1 ?Z" m2 o2 t2 H W ?prev ?c1 "masks ?c1" cls,
        OF p2' _ _ s2 refl ps] s1
    by (simp only: B2) simp
  have a2: "add_mask ?c1 (Some m2) cls o2 = Inr ?c2"
    using add_mask_border_class [OF bc1 e2] step2 by simp
  have l2: "map_of (masks ?c2) cls = Some (WithBorders ?M ?B)"
    by (simp add: map_of_update_same)
  have z: "?B = ?Z"
    if "\<forall>i < H. \<forall>j < W. get2 (cv2_dilate t1 ?k) i j = 0 \<or> get2 (cv2_dilate t2 ?k) i j = 0"
    unfolding np_zeros_def fst_conv snd_conv using that by (intro tab2_cong) auto
  from a1 l1 a2 l2 z show ?thesis by blast
qed

theorem add_mask_border_between_two_masks_witness:
  "\<exists>c1 c2 M.
     add_mask (add_borders_as_class (MasksComposer_init (1, 3)) (Some [0]) (Some default_kernel))
       (Some \<lparr>shape = [1, 3], buf = [1, 0, 0]\<rparr>) 0 None = Inr c1 \<and>
     add_mask c1 (Some \<lparr>shape = [1, 1], buf = [1]\<rparr>) 0 (Some (0, 1)) = Inr c2 \<and>
     map_of (masks c2) 0 = Some (WithBorders M \<lparr>shape = [1, 3], buf = [0, 1, 0]\<rparr>)"
proof -
  let ?c = "add_borders_as_class (MasksComposer_init (1, 3)) (Some [0]) (Some default_kernel)"
  let ?m1 = "\<lparr>shape = [1, 3], buf = [1, 0, 0 :: u8]\<rparr>"
  let ?m2 = "\<lparr>shape = [1, 1], buf = [1 :: u8]\<rparr>"
  let ?t2 = "\<lparr>shape = [1, 3], buf = [0, 1, 0 :: u8]\<rparr>"
  have bc: "border_class ?c 0"
    by (simp add: border_class_def add_borders_as_class_def MasksComposer_init_def)
  have fresh: "map_of (masks ?c) 0 = None"
    by (simp add: add_borders_as_class_def MasksComposer_init_def)
  have shp: "mask_shape ?c = (1, 3)"
    by (simp add: add_borders_as_class_def MasksComposer_init_def)
  have m1: "wf2 ?m1" "binary ?m1" and m2: "wf2 ?m2" "binary ?m2"
    by (simp_all add: wf2_def binary_def nrows_def ncols_def)
  have p1: "place_target (np_zeros (1, 3)) (Some ?m1) None = Inr (Some ?m1)"
    by (simp add: place_target_def)
  have p2: "place_target (np_zeros (1, 3)) (Some ?m2) (Some (0, 1)) = Inr (Some ?t2)"
    by code_simp
  have s: "nrows ?m1 = 1" "ncols ?m1 = 3" "nrows ?t2 = 1" "ncols ?t2 = 3"
    by (simp_all add: nrows_def ncols_def)
  have B: "tab2 1 3 (\<lambda>i j. if get2 (cv2_dilate ?m1 (dilate_masks_kernel ?c)) i j \<noteq> 0 \<and>
                             get2 (cv2_dilate ?t2 (dilate_masks_kernel ?c)) i j \<noteq> 0
                          then 1 else 0) = \<lparr>shape = [1, 3], buf = [0, 1, 0 :: u8]\<rparr>"
    by code_simp
  from add_mask_border_between_two_masks [OF bc fresh shp m1 m2 p1 s(1,2) p2 s(3,4)]
  show ?thesis unfolding B by blast
qed

subsection \<open>Offsets\<close>




section \<open>Properties of EmptyClassesAdd\<close>

lemma concat_map_nth:
  assumes "\<And>x. length (f x) = n" "p < length xs" "c < n"
  shows "concat (map f xs) ! (p * n + c) = f (xs ! p) ! c"
  using assms(2)
proof (induction xs arbitrary: p)
  case Nil
  then show ?case by simp
next
  case (Cons x xs)
  show ?case
  proof (cases p)
    case 0
    then show ?thesis using assms(1,3) by (simp add: nth_append)
  next
    case (Suc q)
    then have "q < length xs" using Cons.prems by simp
    then have "concat (map f xs) ! (q * n + c) = f (xs ! q) ! c" by (rule Cons.IH)
    then show ?thesis using Suc assms(1) by (simp add: nth_append)
  qed
qed

lemma to_uint8_nonneg:
  "0 \<le> x \<Longrightarrow> x < 2147483648 \<Longrightarrow> to_uint8 x = word_of_int \<lfloor>x\<rfloor>"
  by (simp add: to_uint8_def trunc_def floor_less_iff le_floor_iff)

lemma to_uint8_nonpos:
  "x \<le> 0 \<Longrightarrow> - 2147483648 < x \<Longrightarrow> to_uint8 x = word_of_int \<lceil>x\<rceil>"
proof (cases "x = 0")
  case True
  then show ?thesis by (simp add: to_uint8_def trunc_def)
next
  case False
  assume "x \<le> 0" "- 2147483648 < x"
  then show ?thesis using False
    by (simp add: to_uint8_def trunc_def ceiling_less_iff le_ceiling_iff)
qed

lemma floor_unsigned: "\<lfloor>of_nat (unat (w::u8)) :: rat\<rfloor> = int (unat w)"
  by (rule floor_of_nat)

lemma of_nat_small: "n < 256 \<Longrightarrow> (of_nat n :: rat) < 2147483648"
proof -
  assume "n < 256"
  then have "(of_nat n :: rat) < of_nat 256" by (simp only: of_nat_less_iff)
  then show ?thesis by simp
qed

lemma to_uint8_of_u8: "to_uint8 (of_nat (unat (w::u8))) = w"
proof -
  have "unat w < 256" using unsigned_less [of w] by simp
  then have "(of_nat (unat w) :: rat) < 2147483648" by (rule of_nat_small)
  with of_nat_0_le_iff
  have "to_uint8 (of_nat (unat w)) = word_of_int \<lfloor>of_nat (unat w) :: rat\<rfloor>"
    by (rule to_uint8_nonneg)
  also have "\<dots> = word_of_int (int (unat w))"
    by (simp only: floor_unsigned)
  also have "\<dots> = w" by simp
  finally show ?thesis .
qed

lemma to_uint8_half: "to_uint8 (1 / 2) = 0"
proof -
  have "\<lfloor>(1::rat) / 2\<rfloor> = 0" by (simp add: floor_eq_iff)
  then show ?thesis by (simp add: to_uint8_nonneg)
qed

lemma floor_div_255: "n < 255 \<Longrightarrow> \<lfloor>(of_nat n :: rat) / 255\<rfloor> = 0"
  by (simp add: floor_eq_iff)

lemma div_255_small: "n < 256 \<Longrightarrow> (of_nat n :: rat) / 255 < 2147483648"
  by (simp add: divide_less_eq)

lemma div_255_nonneg: "(0::rat) \<le> of_nat n / 255"
  by simp

lemma to_uint8_div_255:
  assumes "n < 255"
  shows "to_uint8 (of_nat n / 255) = 0"
proof -
  have "n < 256" using assms by simp
  then have "to_uint8 (of_nat n / 255) = word_of_int \<lfloor>(of_nat n :: rat) / 255\<rfloor>"
    by (intro to_uint8_nonneg div_255_nonneg div_255_small)
  then show ?thesis by (simp only: floor_div_255 [OF assms]) simp
qed

lemma to_uint8_fraction:
  assumes "- 1 < x" "x < 1"
  shows "to_uint8 x = 0"
proof (cases "0 \<le> x")
  case True
  then have "\<lfloor>x\<rfloor> = 0" using assms(2) by (simp add: floor_eq_iff)
  moreover have "x < 2147483648" using assms(2) by simp
  ultimately show ?thesis using True by (simp add: to_uint8_nonneg)
next
  case False
  then have "\<lceil>x\<rceil> = 0" using assms(1) by (simp add: ceiling_eq_iff)
  moreover have "- 2147483648 < x" using assms(1) by simp
  ultimately show ?thesis using False by (simp add: to_uint8_nonpos)
qed

lemma pixart_pixel: "to_uint8 (of_nat (unat (p::u8)) / 255) = (if p = 255 then 1 else 0)"
proof (cases "p = 255")
  case True
  then show ?thesis by (simp add: to_uint8_nonneg)
next
  case False
  have "unat p < 256" using unsigned_less[of p] by simp
  moreover have "unat p \<noteq> 255"
  proof
    assume "unat p = 255"
    then have "unat p = unat (255::u8)" by simp
    then show False using False by (simp only: word_unat_eq_iff [symmetric])
  qed
  ultimately have lt: "unat p < 255" by simp
  then have "to_uint8 (of_nat (unat p) / 255) = 0" by (rule to_uint8_div_255)
  then show ?thesis using False by simp
qed

lemma getitem_2d:
  assumes "dataset e item = Inr s"
    and "shape (target s) = [H, W]"
    and "0 \<le> exists_class_idx e" "exists_class_idx e < target_classes_num e"
  shows "EmptyClassesAdd_getitem e item =
           Inr \<lparr>data = data s,
                target = \<lparr>shape = [H, W, nat (target_classes_num e)],
                          buf = expanded (nat (target_classes_num e)) (nat (exists_class_idx e))
                                  (buf (target s))\<rparr>\<rparr>"
  using assms by (simp add: EmptyClassesAdd_getitem_def Let_def)

lemma expanded_channel:
  assumes "length vs = H * W" "i < H" "j < W" "c < n"
  shows "get3 \<lparr>shape = [H, W, n], buf = expanded n k vs\<rparr> i j c =
           (if c = k then to_uint8 (vs ! (i * W + j)) else 0)"
proof -
  have p: "i * W + j < length vs" using assms by (simp add: index_lt)
  have "expanded n k vs ! ((i * W + j) * n + c) = ((replicate n 0)[k := to_uint8 (vs ! (i * W + j))]) ! c"
    unfolding expanded_def by (rule concat_map_nth) (simp_all add: p assms(4))
  also have "\<dots> = (if c = k then to_uint8 (vs ! (i * W + j)) else 0)"
    using assms(4) by (simp add: nth_list_update)
  finally show ?thesis by (simp add: get3_def)
qed

lemma length_expanded: "length (expanded n k vs) = length vs * n"
  unfolding expanded_def by (induction vs) simp_all


subsection \<open>Construction\<close>

text \<open>
  C8. The constructor of the Class-Count Normalizer raises its exception whenever the
  total class count is less than or equal to the index of the existing class, and
  returns the wrapper whenever the total class count is strictly greater.
\<close>

theorem EmptyClassesAdd_init_validates:
  "(t \<le> i \<longrightarrow> EmptyClassesAdd_init ds t i = Inl (Exception msg_config [IntArg t, IntArg i])) \<and>
   (i < t \<longrightarrow> EmptyClassesAdd_init ds t i =
      Inr \<lparr>dataset = ds, target_classes_num = t, exists_class_idx = i\<rparr>)"
  by (simp add: EmptyClassesAdd_init_def)

theorem EmptyClassesAdd_init_validates_witness:
  "EmptyClassesAdd_init (\<lambda>n::nat. Inl IndexError :: error + (unit, rat) sample) 2 2 =
     Inl (Exception msg_config [IntArg 2, IntArg 2]) \<and>
   EmptyClassesAdd_init (\<lambda>n::nat. Inl IndexError :: error + (unit, rat) sample) 3 1 =
     Inr \<lparr>dataset = (\<lambda>n. Inl IndexError), target_classes_num = 3, exists_class_idx = 1\<rparr>"
  using EmptyClassesAdd_init_validates [of 2 2 "\<lambda>n::nat. Inl IndexError :: error + (unit, rat) sample"]
    EmptyClassesAdd_init_validates [of 3 1 "\<lambda>n::nat. Inl IndexError :: error + (unit, rat) sample"]
  by simp

subsection \<open>The shape check of a read\<close>

text \<open>
  C9, as the claim states it, fails: on a target of four dimensions the error message
  carries the shape alone, not the configured class count; and a target of one dimension
  passes the check but is not accepted, the read raises \<^verbatim>\<open>IndexError\<close>.
\<close>

theorem getitem_shape_error_counterexample:
  "EmptyClassesAdd_getitem
     \<lparr>dataset = (\<lambda>n::nat. Inr \<lparr>data = (), target = \<lparr>shape = [1, 1, 1, 1], buf = [0]\<rparr>\<rparr>),
      target_classes_num = 2, exists_class_idx = 0\<rparr> 0 =
     Inl (RuntimeError msg_dims [ShapeArg [1, 1, 1, 1]]) \<and>
   EmptyClassesAdd_getitem
     \<lparr>dataset = (\<lambda>n::nat. Inr \<lparr>data = (), target = \<lparr>shape = [3], buf = [0, 0, 0]\<rparr>\<rparr>),
      target_classes_num = 2, exists_class_idx = 0\<rparr> 0 =
     Inl IndexError"
  by (simp add: EmptyClassesAdd_getitem_def)

text \<open>
  C9, amended. A read raises the shape error exactly when the target has more than 3
  dimensions, or has 3 dimensions and more channels than the configured class count. The
  message reports the offending shape; it reports the configured class count as well in
  the 3-dimensional case only. No other target raises the shape error, and every 2-D
  target is accepted by a normalizer whose index lies in \<open>0..<total\<close>.
\<close>

theorem getitem_shape_error:
  assumes "dataset e item = Inr s"
  shows "((\<exists>msg args. EmptyClassesAdd_getitem e item = Inl (RuntimeError msg args)) \<longleftrightarrow>
            (length (shape (target s)) > 3 \<or>
             length (shape (target s)) = 3 \<and> int (shape (target s) ! 2) > target_classes_num e)) \<and>
         (length (shape (target s)) > 3 \<longrightarrow>
            EmptyClassesAdd_getitem e item = Inl (RuntimeError msg_dims [ShapeArg (shape (target s))])) \<and>
         (length (shape (target s)) = 3 \<and> int (shape (target s) ! 2) > target_classes_num e \<longrightarrow>
            EmptyClassesAdd_getitem e item =
              Inl (RuntimeError msg_channels
                     [ShapeArg (shape (target s)), IntArg (target_classes_num e)])) \<and>
         (length (shape (target s)) = 2 \<and> 0 \<le> exists_class_idx e \<and>
          exists_class_idx e < target_classes_num e \<longrightarrow>
            (\<exists>r. EmptyClassesAdd_getitem e item = Inr r))"
  using assms by (auto simp add: EmptyClassesAdd_getitem_def Let_def)

theorem getitem_shape_error_witness:
  "EmptyClassesAdd_getitem
     \<lparr>dataset = (\<lambda>n::nat. Inr \<lparr>data = (), target = \<lparr>shape = [1, 1, 3], buf = [0, 0, 0 :: rat]\<rparr>\<rparr>),
      target_classes_num = 2, exists_class_idx = 0\<rparr> 0 =
     Inl (RuntimeError msg_channels [ShapeArg [1, 1, 3], IntArg 2]) \<and>
   EmptyClassesAdd_getitem
     \<lparr>dataset = (\<lambda>n::nat. Inr \<lparr>data = (), target = \<lparr>shape = [1, 1, 1, 2], buf = [0, 0 :: rat]\<rparr>\<rparr>),
      target_classes_num = 2, exists_class_idx = 0\<rparr> 0 =
     Inl (RuntimeError msg_dims [ShapeArg [1, 1, 1, 2]]) \<and>
   (\<exists>r. EmptyClassesAdd_getitem
     \<lparr>dataset = (\<lambda>n::nat. Inr \<lparr>data = (), target = \<lparr>shape = [1, 2], buf = [0, 1 :: rat]\<rparr>\<rparr>),
      target_classes_num = 2, exists_class_idx = 0\<rparr> 0 = Inr r)"
  using getitem_shape_error
    [of "\<lparr>dataset = (\<lambda>n::nat. Inr \<lparr>data = (), target = \<lparr>shape = [1, 1, 3], buf = [0, 0, 0 :: rat]\<rparr>\<rparr>),
          target_classes_num = 2, exists_class_idx = 0\<rparr>" 0
        "\<lparr>data = (), target = \<lparr>shape = [1, 1, 3], buf = [0, 0, 0 :: rat]\<rparr>\<rparr>"]
    getitem_shape_error
    [of "\<lparr>dataset = (\<lambda>n::nat. Inr \<lparr>data = (), target = \<lparr>shape = [1, 1, 1, 2], buf = [0, 0 :: rat]\<rparr>\<rparr>),
          target_classes_num = 2, exists_class_idx = 0\<rparr>" 0
        "\<lparr>data = (), target = \<lparr>shape = [1, 1, 1, 2], buf = [0, 0 :: rat]\<rparr>\<rparr>"]
    getitem_shape_error
    [of "\<lparr>dataset = (\<lambda>n::nat. Inr \<lparr>data = (), target = \<lparr>shape = [1, 2], buf = [0, 1 :: rat]\<rparr>\<rparr>),
          target_classes_num = 2, exists_class_idx = 0\<rparr>" 0
        "\<lparr>data = (), target = \<lparr>shape = [1, 2], buf = [0, 1 :: rat]\<rparr>\<rparr>"]
  by simp

subsection \<open>The expanded target\<close>

text \<open>
  C6, as the claim states it, fails: the channel is a \<^verbatim>\<open>uint8\<close> array, and on a target
  with the value 1/2 (which \<^verbatim>\<open>PixartDataset\<close> produces by its division) channel 1 holds
  0, not the input.
\<close>

theorem getitem_channel_counterexample:
  "EmptyClassesAdd_getitem
     \<lparr>dataset = (\<lambda>n::nat. Inr \<lparr>data = (), target = \<lparr>shape = [1, 1], buf = [1 / 2]\<rparr>\<rparr>),
      target_classes_num = 3, exists_class_idx = 1\<rparr> 0 =
     Inr \<lparr>data = (), target = \<lparr>shape = [1, 1, 3], buf = [0, 0, 0]\<rparr>\<rparr>"
  by (simp add: EmptyClassesAdd_getitem_def expanded_def to_uint8_half numeral_3_eq_3)

text \<open>
  C6, amended. For a 2-D target of shape \<open>(H, W)\<close> and an index in \<open>0..<total\<close>, the read
  returns the same data and an array of shape \<open>(H, W, total)\<close> whose channel
  \<open>exists_class_idx\<close> holds the input target converted to \<^verbatim>\<open>uint8\<close>, which equals
  the input wherever its value is an integer of \<open>0..255\<close>, and whose other channels
  are zero.
\<close>

theorem getitem_expands_target:
  assumes "dataset e item = Inr s"
    and "shape (target s) = [H, W]" and "length (buf (target s)) = H * W"
    and "0 \<le> exists_class_idx e" and "exists_class_idx e < target_classes_num e"
  shows "\<exists>r. EmptyClassesAdd_getitem e item = Inr r \<and> data r = data s \<and>
           shape (target r) = [H, W, nat (target_classes_num e)] \<and>
           length (buf (target r)) = H * W * nat (target_classes_num e) \<and>
           (\<forall>i < H. \<forall>j < W. \<forall>c < nat (target_classes_num e).
              get3 (target r) i j c =
                (if c = nat (exists_class_idx e) then to_uint8 (get2 (target s) i j) else 0) \<and>
              (\<forall>v. get2 (target s) i j = of_nat (unat v) \<longrightarrow>
                 get3 (target r) i j (nat (exists_class_idx e)) = v))"
proof -
  let ?n = "nat (target_classes_num e)" and ?k = "nat (exists_class_idx e)"
  let ?t = "\<lparr>shape = [H, W, ?n], buf = expanded ?n ?k (buf (target s))\<rparr>"
  have r: "EmptyClassesAdd_getitem e item = Inr \<lparr>data = data s, target = ?t\<rparr>"
    using assms(1,2,4,5) by (rule getitem_2d)
  have k: "?k < ?n" using assms(4,5) by simp
  have g: "get2 (target s) i j = buf (target s) ! (i * W + j)" for i j
    by (simp add: get2_def ncols_def assms(2))
  have ch: "get3 ?t i j c = (if c = ?k then to_uint8 (get2 (target s) i j) else 0)"
    if "i < H" "j < W" "c < ?n" for i j c
    using expanded_channel [OF assms(3) that] by (simp add: g)
  have eq: "get3 ?t i j ?k = v"
    if "i < H" "j < W" "get2 (target s) i j = of_nat (unat v)" for i j v
  proof -
    have "get3 ?t i j ?k = to_uint8 (get2 (target s) i j)"
      using ch [OF that(1,2) k] by simp
    also have "\<dots> = to_uint8 (of_nat (unat v))" by (simp only: that(3))
    also have "\<dots> = v" by (rule to_uint8_of_u8)
    finally show ?thesis .
  qed
  show ?thesis
    using r ch eq by (simp add: length_expanded assms(3))
qed

theorem getitem_expands_target_witness:
  "\<exists>r. EmptyClassesAdd_getitem
         \<lparr>dataset = (\<lambda>n::nat. Inr \<lparr>data = (), target = \<lparr>shape = [1, 2], buf = [1, 0]\<rparr>\<rparr>),
          target_classes_num = 3, exists_class_idx = 1\<rparr> 0 = Inr r \<and>
       shape (target r) = [1, 2, 3] \<and>
       get3 (target r) 0 0 0 = 0 \<and> get3 (target r) 0 0 1 = 1 \<and> get3 (target r) 0 0 2 = 0 \<and>
       get3 (target r) 0 1 0 = 0 \<and> get3 (target r) 0 1 1 = 0 \<and> get3 (target r) 0 1 2 = 0"
proof -
  let ?s = "\<lparr>data = (), target = \<lparr>shape = [1, 2], buf = [1, 0 :: rat]\<rparr>\<rparr>"
  let ?e = "\<lparr>dataset = (\<lambda>n::nat. Inr ?s), target_classes_num = 3, exists_class_idx = 1\<rparr>"
  obtain r where r: "EmptyClassesAdd_getitem ?e 0 = Inr r"
    "shape (target r) = [1, 2, 3]"
    "\<forall>i < 1. \<forall>j < 2. \<forall>c < 3. get3 (target r) i j c =
        (if c = 1 then to_uint8 (get2 (target ?s) i j) else 0)"
    using getitem_expands_target [of ?e 0 ?s 1 2] by auto
  have v: "to_uint8 (get2 (target ?s) 0 0) = 1" "to_uint8 (get2 (target ?s) 0 1) = 0"
    by (simp_all add: get2_def ncols_def to_uint8_nonneg)
  have "get3 (target r) 0 0 0 = 0" "get3 (target r) 0 0 1 = 1" "get3 (target r) 0 0 2 = 0"
    "get3 (target r) 0 1 0 = 0" "get3 (target r) 0 1 1 = 0" "get3 (target r) 0 1 2 = 0"
    using r(3) v by simp_all
  then show ?thesis using r(1,2) by blast
qed

text \<open>
  C10. The target a read returns is a \<^verbatim>\<open>uint8\<close> array whatever the wrapped target
  holds. A value of the 32-bit range is written as its integer part, the fraction cut
  off towards zero: the floor of a non-negative value, the ceiling of a non-positive
  one, so that every value strictly between -1 and 1 is written as 0. On the target of
  \<^verbatim>\<open>PixartDataset\<close>, a mask pixel divided by 255, the channel holds 1 where the pixel
  is 255 and 0 everywhere else.
\<close>

theorem getitem_truncates_fractions:
  assumes "dataset e item = Inr s"
    and "shape (target s) = [H, W]" and "length (buf (target s)) = H * W"
    and "0 \<le> exists_class_idx e" and "exists_class_idx e < target_classes_num e"
    and "i < H" and "j < W"
  shows "\<exists>r. EmptyClassesAdd_getitem e item = Inr r \<and>
           (0 \<le> get2 (target s) i j \<and> get2 (target s) i j < 2147483648 \<longrightarrow>
              get3 (target r) i j (nat (exists_class_idx e)) =
                word_of_int \<lfloor>get2 (target s) i j\<rfloor>) \<and>
           (- 2147483648 < get2 (target s) i j \<and> get2 (target s) i j \<le> 0 \<longrightarrow>
              get3 (target r) i j (nat (exists_class_idx e)) =
                word_of_int \<lceil>get2 (target s) i j\<rceil>) \<and>
           (- 1 < get2 (target s) i j \<and> get2 (target s) i j < 1 \<longrightarrow>
              get3 (target r) i j (nat (exists_class_idx e)) = 0) \<and>
           (\<forall>img. target s = pixart_target img \<longrightarrow>
              get3 (target r) i j (nat (exists_class_idx e)) =
                (if get2 img i j = 255 then 1 else 0))"
proof -
  let ?n = "nat (target_classes_num e)" and ?k = "nat (exists_class_idx e)"
  let ?t = "\<lparr>shape = [H, W, ?n], buf = expanded ?n ?k (buf (target s))\<rparr>"
  let ?v = "get2 (target s) i j"
  have r: "EmptyClassesAdd_getitem e item = Inr \<lparr>data = data s, target = ?t\<rparr>"
    using assms(1,2,4,5) by (rule getitem_2d)
  have k: "?k < ?n" using assms(4,5) by simp
  have g: "?v = buf (target s) ! (i * W + j)"
    by (simp add: get2_def ncols_def assms(2))
  have ch: "get3 ?t i j ?k = to_uint8 ?v"
    using expanded_channel [OF assms(3,6,7) k] by (simp add: g)
  have p: "i * W + j < H * W" using assms(6,7) by (rule index_lt)
  have px: "get3 ?t i j ?k = (if get2 img i j = 255 then 1 else 0)"
    if "target s = pixart_target img" for img
  proof -
    have sh: "shape img = [H, W]" and len: "length (buf img) = H * W"
      using that assms(2,3) by (simp_all add: pixart_target_def)
    have "?v = of_nat (unat (get2 img i j)) / 255"
      using p len by (simp add: that pixart_target_def get2_def ncols_def sh)
    then show ?thesis by (simp only: ch pixart_pixel)
  qed
  have a: "get3 ?t i j ?k = word_of_int \<lfloor>?v\<rfloor>" if "0 \<le> ?v \<and> ?v < 2147483648"
    using that by (simp only: ch) (simp add: to_uint8_nonneg)
  have b: "get3 ?t i j ?k = word_of_int \<lceil>?v\<rceil>" if "- 2147483648 < ?v \<and> ?v \<le> 0"
    using that by (simp only: ch) (simp add: to_uint8_nonpos)
  have c: "get3 ?t i j ?k = 0" if "- 1 < ?v \<and> ?v < 1"
    using that by (simp only: ch) (simp add: to_uint8_fraction)
  have q: "(0 \<le> ?v \<and> ?v < 2147483648 \<longrightarrow> get3 ?t i j ?k = word_of_int \<lfloor>?v\<rfloor>) \<and>
           (- 2147483648 < ?v \<and> ?v \<le> 0 \<longrightarrow> get3 ?t i j ?k = word_of_int \<lceil>?v\<rceil>) \<and>
           (- 1 < ?v \<and> ?v < 1 \<longrightarrow> get3 ?t i j ?k = 0) \<and>
           (\<forall>img. target s = pixart_target img \<longrightarrow>
              get3 ?t i j ?k = (if get2 img i j = 255 then 1 else 0))"
    using a b c px by blast
  have tt: "target \<lparr>data = data s, target = ?t\<rparr> = ?t" by simp
  show ?thesis
    by (rule exI [of _ "\<lparr>data = data s, target = ?t\<rparr>"], rule conjI [OF r], unfold tt, rule q)
qed

theorem getitem_truncates_fractions_witness:
  "(\<exists>r. EmptyClassesAdd_getitem
         \<lparr>dataset = (\<lambda>n::nat. Inr \<lparr>data = (),
            target = pixart_target \<lparr>shape = [1, 2], buf = [128, 255]\<rparr>\<rparr>),
          target_classes_num = 2, exists_class_idx = 0\<rparr> 0 = Inr r \<and>
       get3 (target r) 0 0 0 = 0 \<and> get3 (target r) 0 1 0 = 1) \<and>
   (\<exists>r. EmptyClassesAdd_getitem
         \<lparr>dataset = (\<lambda>n::nat. Inr \<lparr>data = (),
            target = \<lparr>shape = [1, 2], buf = [- 1 / 2, 7 / 2]\<rparr>\<rparr>),
          target_classes_num = 2, exists_class_idx = 0\<rparr> 0 = Inr r \<and>
       get3 (target r) 0 0 0 = 0 \<and> get3 (target r) 0 1 0 = 3)"
proof -
  let ?img = "\<lparr>shape = [1, 2], buf = [128, 255 :: u8]\<rparr>"
  let ?s = "\<lparr>data = (), target = pixart_target ?img\<rparr>"
  let ?e = "\<lparr>dataset = (\<lambda>n::nat. Inr ?s), target_classes_num = 2, exists_class_idx = 0\<rparr>"
  have a: "EmptyClassesAdd_getitem ?e 0 = Inr r \<Longrightarrow>
           get3 (target r) 0 j 0 = (if get2 ?img 0 j = 255 then 1 else 0)" if "j < 2" for r j
    using getitem_truncates_fractions [of ?e 0 ?s 1 2 0 j] that
    by (auto simp add: pixart_target_def)
  obtain r where r: "EmptyClassesAdd_getitem ?e 0 = Inr r"
    using getitem_truncates_fractions [of ?e 0 ?s 1 2 0 0]
    by (auto simp add: pixart_target_def)
  have "get3 (target r) 0 0 0 = 0" "get3 (target r) 0 1 0 = 1"
    using a [OF _ r] by (simp_all add: get2_def ncols_def)
  then have first: "\<exists>r. EmptyClassesAdd_getitem ?e 0 = Inr r \<and>
      get3 (target r) 0 0 0 = 0 \<and> get3 (target r) 0 1 0 = 1"
    using r by blast
  let ?s' = "\<lparr>data = (), target = \<lparr>shape = [1, 2], buf = [- 1 / 2, 7 / 2 :: rat]\<rparr>\<rparr>"
  let ?e' = "\<lparr>dataset = (\<lambda>n::nat. Inr ?s'), target_classes_num = 2, exists_class_idx = 0\<rparr>"
  have fl: "\<lfloor>(7::rat) / 2\<rfloor> = 3" by (simp add: floor_eq_iff)
  have b0: "EmptyClassesAdd_getitem ?e' 0 = Inr r \<Longrightarrow> get3 (target r) 0 0 0 = 0" for r
    using getitem_truncates_fractions [of ?e' 0 ?s' 1 2 0 0]
    by (auto simp add: get2_def ncols_def)
  have b1: "EmptyClassesAdd_getitem ?e' 0 = Inr r \<Longrightarrow> get3 (target r) 0 1 0 = 3" for r
    using getitem_truncates_fractions [of ?e' 0 ?s' 1 2 0 1]
    by (auto simp add: get2_def ncols_def fl)
  obtain r' where r': "EmptyClassesAdd_getitem ?e' 0 = Inr r'"
    using getitem_truncates_fractions [of ?e' 0 ?s' 1 2 0 0] by auto
  have "\<exists>r. EmptyClassesAdd_getitem ?e' 0 = Inr r \<and>
      get3 (target r) 0 0 0 = 0 \<and> get3 (target r) 0 1 0 = 3"
    using r' b0 [OF r'] b1 [OF r'] by blast
  with first show ?thesis by blast
qed

end
